theory Spec2Isabelle
  imports Complex_Main
begin

section \<open>The NASA Exoplanet Archive client\<close>

text \<open>
  A shallow embedding of \<^verbatim>\<open>astroquery/nasa_exoplanet_archive/nasa_exoplanet_archive.py\<close>:
  the class \<^verbatim>\<open>NasaExoplanetArchiveClass\<close> with its four attributes and its three query
  methods. The library calls the methods make (\<^verbatim>\<open>download_file\<close>, \<^verbatim>\<open>ascii.read\<close>, the
  unit namespace \<^verbatim>\<open>astropy.units\<close>, the bundled units file) are collected in an environment
  record; the string functions the methods use on the query name are written out.
\<close>

subsection \<open>Strings: \<^verbatim>\<open>str.strip\<close>, \<^verbatim>\<open>str.format\<close> and \<^verbatim>\<open>urllib.parse.quote\<close>\<close>

text \<open>
  A \<^typ>\<open>char\<close> stands for a code point below 256, so a \<^typ>\<open>string\<close> is a Python
  \<^verbatim>\<open>str\<close> of such code points. \<^verbatim>\<open>str.strip()\<close> removes the leading and trailing
  characters for which \<^verbatim>\<open>str.isspace\<close> holds; below 256 these are the code points
  9 to 13, 28 to 32, 133 and 160.
\<close>

definition is_space :: "char \<Rightarrow> bool" where
  "is_space c = ((of_char c :: nat) \<in> {9, 10, 11, 12, 13, 28, 29, 30, 31, 32, 133, 160})"

definition strip :: "string \<Rightarrow> string" where
  "strip s = rev (dropWhile is_space (rev (dropWhile is_space s)))"

text \<open>The format string \<^verbatim>\<open>"'{0}'"\<close>: its argument between two apostrophes (code point 39).\<close>

definition apostrophe :: char where
  "apostrophe = CHR 0x27"

definition format_quoted :: "string \<Rightarrow> string" where
  "format_quoted x = apostrophe # x @ [apostrophe]"

text \<open>
  \<^verbatim>\<open>quote(string)\<close> with its default \<^verbatim>\<open>safe='/'\<close>: the string is encoded as UTF-8, and
  every byte that is not a letter, a digit, one of \<^verbatim>\<open>_.-~\<close> or \<^verbatim>\<open>/\<close> becomes
  \<^verbatim>\<open>%XX\<close> with two upper-case hexadecimal digits.
\<close>

definition always_safe :: "char \<Rightarrow> bool" where
  "always_safe c =
     (c \<in> set ''ABCDEFGHIJKLMNOPQRSTUVWXYZabcdefghijklmnopqrstuvwxyz0123456789_.-~'')"

definition hex_digit :: "nat \<Rightarrow> char" where
  "hex_digit n = ''0123456789ABCDEF'' ! (n mod 16)"

definition percent_byte :: "nat \<Rightarrow> string" where
  "percent_byte b = [CHR ''%'', hex_digit (b div 16), hex_digit (b mod 16)]"

definition utf8 :: "char \<Rightarrow> nat list" where
  "utf8 c = (let n = (of_char c :: nat)
             in if n < 128 then [n] else [192 + n div 64, 128 + n mod 64])"

definition quote_char :: "char \<Rightarrow> string" where
  "quote_char c = (if always_safe c \<or> c = CHR ''/'' then [c]
                   else concat (map percent_byte (utf8 c)))"

definition quote :: "string \<Rightarrow> string" where
  "quote s = concat (map quote_char s)"

definition EXOPLANETS_CSV_URL :: string where
  "EXOPLANETS_CSV_URL =
     ''http://exoplanetarchive.ipac.caltech.edu/cgi-bin/nstedAPI/nph-nstedAPI?table=exoplanets''"

subsection \<open>Objects, tables and the client's state\<close>

text \<open>
  The cache checks of \<^verbatim>\<open>query_planet\<close> and \<^verbatim>\<open>query_star\<close> compare the stored key with the
  new one by \<^verbatim>\<open>is\<close>, which is object identity. A string object is therefore its identity
  together with its characters, and so is a table. Identities are handed out by a counter
  in the state: an object made while another one is still referenced never has the
  identity of that one.
\<close>

record pystr =
  oid :: nat
  chars :: string

text \<open>
  A unit is known by its name; \<^verbatim>\<open>u.deg\<close> is the unit named \<^verbatim>\<open>deg\<close>. The methods never
  compute with the cells of a table, so the type of the cell values is a parameter.
  \<^verbatim>\<open>column * u.deg\<close> is the quantity made of the column's values and the unit, and
  \<^verbatim>\<open>SkyCoord(ra=..., dec=...)\<close> is kept as a constructor applied to its two quantities.
  Every column object has a \<^verbatim>\<open>unit\<close> attribute, empty unless one is assigned.
\<close>

datatype aunit = Unit string

definition deg :: aunit where
  "deg = Unit ''deg''"

datatype 'v quantity = Quantity (magnitudes: "'v list") (unit_of: aunit)

datatype 'v coldata =
    Values "'v list"
  | SkyCoord (ra: "'v quantity") (dec: "'v quantity")

datatype 'v column = Column (col_data: "'v coldata") (col_unit: "aunit option")

type_synonym 'v columns = "(string \<times> 'v column) list"

record 'v table =
  tid :: nat
  columns :: "'v columns"

text \<open>
  The input and output a method does is logged: a call of \<^verbatim>\<open>download_file\<close> with its URL,
  its \<^verbatim>\<open>cache\<close> and \<^verbatim>\<open>show_progress\<close> flags and its timeout, a call of \<^verbatim>\<open>ascii.read\<close>
  with its path, and the loading of the units file. The exceptions a method can end with
  are the failed download, the unreadable table, the missing \<^verbatim>\<open>ra\<close> or \<^verbatim>\<open>dec\<close> column
  and the unit name that \<^verbatim>\<open>u.Unit\<close> rejects.
\<close>

datatype event =
    Download string bool bool nat
  | Read string
  | LoadUnits

datatype error =
    FetchError
  | ParseError
  | KeyError string
  | ValueError string

text \<open>
  What the methods call outside this file. \<open>download_file env url cache show_progress timeout\<close>
  is the path of the downloaded file, or \<open>None\<close> when the download fails or times out.
  \<open>ascii_read env path\<close> is the parsed file, as column names with their values and no
  unit, or \<open>None\<close> when the file cannot be read as a table. \<open>units_json\<close> is the content
  of \<^verbatim>\<open>data/exoplanet_nexsci_units.json\<close>, \<open>hasattr_u env n\<close> is \<^verbatim>\<open>hasattr(u, n)\<close>,
  and \<open>unit_parses env n\<close> tells whether \<^verbatim>\<open>u.Unit(n)\<close> returns a unit rather than raising.
\<close>

record 'v env =
  download_file :: "string \<Rightarrow> bool \<Rightarrow> bool \<Rightarrow> nat \<Rightarrow> string option"
  ascii_read :: "string \<Rightarrow> (string \<times> 'v list) list option"
  units_json :: "string \<rightharpoonup> string"
  hasattr_u :: "string \<Rightarrow> bool"
  unit_parses :: "string \<Rightarrow> bool"

text \<open>
  The four attributes set by \<^verbatim>\<open>__init__\<close> (\<^verbatim>\<open>_param_units\<close>, \<^verbatim>\<open>_table\<close>,
  \<^verbatim>\<open>_cache_planet\<close>, \<^verbatim>\<open>_cache_star\<close>), the identity counter, and the log of the
  input and output done so far.
\<close>

record 'v client =
  self_param_units :: "(string \<rightharpoonup> string) option"
  self_table :: "'v table option"
  self_cache_planet :: "pystr option"
  self_cache_star :: "pystr option"
  heap_next :: nat
  effects :: "event list"

definition init :: "'v client" where
  "init = \<lparr>self_param_units = None, self_table = None, self_cache_planet = None,
           self_cache_star = None, heap_next = 0, effects = []\<rparr>"

definition new_str :: "string \<Rightarrow> 'v client \<Rightarrow> pystr \<times> 'v client" where
  "new_str cs s = (\<lparr>oid = heap_next s, chars = cs\<rparr>, s\<lparr>heap_next := Suc (heap_next s)\<rparr>)"

definition py_is :: "pystr option \<Rightarrow> pystr \<Rightarrow> bool" where
  "py_is stored k = (case stored of None \<Rightarrow> False | Some k' \<Rightarrow> oid k' = oid k)"

definition log_event :: "event \<Rightarrow> 'v client \<Rightarrow> 'v client" where
  "log_event e s = s\<lparr>effects := effects s @ [e]\<rparr>"

text \<open>The property \<^verbatim>\<open>param_units\<close>: the units file is loaded on the first access only.\<close>

definition param_units :: "'v env \<Rightarrow> 'v client \<Rightarrow> (string \<rightharpoonup> string) \<times> 'v client" where
  "param_units env s =
     (case self_param_units s of
        None \<Rightarrow> (units_json env, log_event LoadUnits (s\<lparr>self_param_units := Some (units_json env)\<rparr>))
      | Some m \<Rightarrow> (m, s))"

subsection \<open>Download, parse and annotate\<close>

text \<open>
  The three methods repeat one block after their cache check, with their own URL:
  download unless a local path is given, parse, add the \<^verbatim>\<open>sky_coord\<close> column,
  assign the units. It is written once here.
\<close>

definition obtain_path ::
  "'v env \<Rightarrow> string \<Rightarrow> bool \<Rightarrow> bool \<Rightarrow> string option \<Rightarrow> bool \<Rightarrow> 'v client
     \<Rightarrow> (error + string) \<times> 'v client" where
  "obtain_path env url cache show_progress table_path all_columns s =
     (case table_path of
        Some p \<Rightarrow> (Inr p, s)
      | None \<Rightarrow>
          (let exoplanets_url = (if all_columns then url @ ''&select=*'' else url);
               s1 = log_event (Download exoplanets_url cache show_progress 120) s
           in case download_file env exoplanets_url cache show_progress 120 of
                None \<Rightarrow> (Inl FetchError, s1)
              | Some p \<Rightarrow> (Inr p, s1)))"

definition set_col :: "string \<Rightarrow> 'v column \<Rightarrow> 'v columns \<Rightarrow> 'v columns" where
  "set_col name c cols =
     (if name \<in> set (map fst cols)
      then map (\<lambda>(n, x). if n = name then (n, c) else (n, x)) cols
      else cols @ [(name, c)])"

definition set_unit :: "string \<Rightarrow> aunit \<Rightarrow> 'v columns \<Rightarrow> 'v columns" where
  "set_unit name u cols =
     map (\<lambda>(n, x). if n = name then (n, Column (col_data x) (Some u)) else (n, x)) cols"

definition add_sky_coord :: "(string \<times> 'v list) list \<Rightarrow> error + 'v columns" where
  "add_sky_coord raw =
     (case map_of raw ''ra'' of
        None \<Rightarrow> Inl (KeyError ''ra'')
      | Some ras \<Rightarrow>
          (case map_of raw ''dec'' of
             None \<Rightarrow> Inl (KeyError ''dec'')
           | Some decs \<Rightarrow>
               Inr (set_col ''sky_coord''
                      (Column (SkyCoord (Quantity ras deg) (Quantity decs deg)) None)
                      (map (\<lambda>(n, vs). (n, Column (Values vs) None)) raw))))"

fun assign_units ::
  "'v env \<Rightarrow> string list \<Rightarrow> 'v columns \<Rightarrow> 'v client \<Rightarrow> (error + 'v columns) \<times> 'v client" where
  "assign_units env [] cols s = (Inr cols, s)"
| "assign_units env (col # rest) cols s =
     (case fst (param_units env s) col of
        None \<Rightarrow> assign_units env rest cols (snd (param_units env s))
      | Some name \<Rightarrow>
          if hasattr_u env name
          then (if unit_parses env name
                then assign_units env rest (set_unit col (Unit name) cols) (snd (param_units env s))
                else (Inl (ValueError name), snd (param_units env s)))
          else assign_units env rest cols (snd (param_units env s)))"

definition fetch_table ::
  "'v env \<Rightarrow> string \<Rightarrow> bool \<Rightarrow> bool \<Rightarrow> string option \<Rightarrow> bool \<Rightarrow> 'v client
     \<Rightarrow> (error + 'v columns) \<times> 'v client" where
  "fetch_table env url cache show_progress table_path all_columns s =
     (case obtain_path env url cache show_progress table_path all_columns s of
        (Inl e, s1) \<Rightarrow> (Inl e, s1)
      | (Inr path, s1) \<Rightarrow>
          (let s2 = log_event (Read path) s1
           in case ascii_read env path of
                None \<Rightarrow> (Inl ParseError, s2)
              | Some raw \<Rightarrow>
                  (case add_sky_coord raw of
                     Inl e \<Rightarrow> (Inl e, s2)
                   | Inr cols \<Rightarrow> assign_units env (map fst cols) cols s2)))"

definition QTable :: "'v columns \<Rightarrow> 'v client \<Rightarrow> 'v table \<times> 'v client" where
  "QTable cols s = (\<lparr>tid = heap_next s, columns = cols\<rparr>, s\<lparr>heap_next := Suc (heap_next s)\<rparr>)"

subsection \<open>The three query methods\<close>

definition query_planet ::
  "'v env \<Rightarrow> string \<Rightarrow> bool \<Rightarrow> bool \<Rightarrow> string option \<Rightarrow> bool \<Rightarrow> 'v client
     \<Rightarrow> (error + 'v table) \<times> 'v client" where
  "query_planet env planet_name cache show_progress table_path all_columns s =
     (let (planet_name', s0) = new_str (format_quoted (strip planet_name)) s;
          EXOPLANET_URL_PLANET = EXOPLANETS_CSV_URL @ ''&where=pl_name='' @ quote (chars planet_name');
          miss =
            (case fetch_table env EXOPLANET_URL_PLANET cache show_progress table_path all_columns s0 of
               (Inl e, s1) \<Rightarrow> (Inl e, s1)
             | (Inr cols, s1) \<Rightarrow>
                 (let (t, s2) = QTable cols s1
                  in (Inr t, s2\<lparr>self_table := Some t, self_cache_planet := Some planet_name'\<rparr>)))
      in case self_table s0 of
           None \<Rightarrow> miss
         | Some t \<Rightarrow> if py_is (self_cache_planet s0) planet_name' \<and> cache then (Inr t, s0) else miss)"

definition query_star ::
  "'v env \<Rightarrow> string \<Rightarrow> bool \<Rightarrow> bool \<Rightarrow> string option \<Rightarrow> bool \<Rightarrow> 'v client
     \<Rightarrow> (error + 'v table) \<times> 'v client" where
  "query_star env host_name cache show_progress table_path all_columns s =
     (let (host_name', s0) = new_str (format_quoted (strip host_name)) s;
          EXOPLANET_URL_PLANET = EXOPLANETS_CSV_URL @ ''&where=pl_hostname='' @ quote (chars host_name');
          miss =
            (case fetch_table env EXOPLANET_URL_PLANET cache show_progress table_path all_columns s0 of
               (Inl e, s1) \<Rightarrow> (Inl e, s1)
             | (Inr cols, s1) \<Rightarrow>
                 (let (t, s2) = QTable cols s1
                  in (Inr t, s2\<lparr>self_table := Some t, self_cache_star := Some host_name'\<rparr>)))
      in case self_table s0 of
           None \<Rightarrow> miss
         | Some t \<Rightarrow> if py_is (self_cache_star s0) host_name' \<and> cache then (Inr t, s0) else miss)"

definition get_confirmed_planets_table ::
  "'v env \<Rightarrow> string option \<Rightarrow> bool \<Rightarrow> bool \<Rightarrow> bool \<Rightarrow> 'v client
     \<Rightarrow> (error + 'v table) \<times> 'v client" where
  "get_confirmed_planets_table env table_path all_columns cache show_progress s =
     (case self_table s of
        Some t \<Rightarrow> (Inr t, s)
      | None \<Rightarrow>
          (case fetch_table env EXOPLANETS_CSV_URL cache show_progress table_path all_columns s of
             (Inl e, s1) \<Rightarrow> (Inl e, s1)
           | (Inr cols, s1) \<Rightarrow>
               (let (t, s2) = QTable cols s1
                in (Inr t, s2\<lparr>self_table := Some t\<rparr>))))"

subsection \<open>Well-formed states, and an example archive\<close>

text \<open>
  In a state the client can reach, every object the client still references was made
  before the next identity to be handed out.
\<close>

definition heap_ok :: "'v client \<Rightarrow> bool" where
  "heap_ok s =
     ((case self_cache_planet s of None \<Rightarrow> True | Some k \<Rightarrow> oid k < heap_next s) \<and>
      (case self_cache_star s of None \<Rightarrow> True | Some k \<Rightarrow> oid k < heap_next s) \<and>
      (case self_table s of None \<Rightarrow> True | Some t \<Rightarrow> tid t < heap_next s))"

fun is_download :: "event \<Rightarrow> bool" where
  "is_download (Download url cache show_progress timeout) = True"
| "is_download e = False"

text \<open>
  A small archive for concrete runs: the unfiltered table has two planets, the query for
  \<^verbatim>\<open>Kepler-7 b\<close> has one, every other URL fails; the unit \<^verbatim>\<open>jupiterRad\<close> is mapped to
  a column and is not known to the unit namespace.
\<close>

definition kepler_env :: "real env" where
  "kepler_env = \<lparr>
     download_file = (\<lambda>url cache show_progress timeout.
        if url = EXOPLANETS_CSV_URL then Some ''all.csv''
        else if url = EXOPLANETS_CSV_URL @ ''&where=pl_name=%27Kepler-7%20b%27''
          then Some ''kepler7b.csv''
        else None),
     ascii_read = (\<lambda>path.
        if path = ''all.csv''
          then Some [(''ra'', [290, 286]), (''dec'', [44, 47]),
                     (''pl_orbper'', [5, 3]), (''pl_radj'', [2, 1])]
        else if path = ''kepler7b.csv''
          then Some [(''ra'', [290]), (''dec'', [44]), (''pl_orbper'', [5]), (''pl_radj'', [2])]
        else None),
     units_json = map_of [(''pl_orbper'', ''day''), (''pl_radj'', ''jupiterRad''), (''ra'', ''deg'')],
     hasattr_u = (\<lambda>n. n = ''day'' \<or> n = ''deg''),
     unit_parses = (\<lambda>n. n = ''day'' \<or> n = ''deg'')\<rparr>"

definition kepler7b_table :: "nat \<Rightarrow> real table" where
  "kepler7b_table i =
     \<lparr>tid = i,
      columns =
        [(''ra'', Column (Values [290]) (Some (Unit ''deg''))),
         (''dec'', Column (Values [44]) None),
         (''pl_orbper'', Column (Values [5]) (Some (Unit ''day''))),
         (''pl_radj'', Column (Values [2]) None),
         (''sky_coord'',
          Column (SkyCoord (Quantity [290] (Unit ''deg'')) (Quantity [44] (Unit ''deg''))) None)]\<rparr>"

definition planet_cached :: "real client" where
  "planet_cached =
     snd (query_planet kepler_env ''Kepler-7 b'' True True (Some ''kepler7b.csv'') False init)"

definition all_cached :: "real client" where
  "all_cached = snd (get_confirmed_planets_table kepler_env None False True True init)"

definition all_planets_table :: "real table" where
  "all_planets_table =
     \<lparr>tid = 0,
      columns =
        [(''ra'', Column (Values [290, 286]) (Some (Unit ''deg''))),
         (''dec'', Column (Values [44, 47]) None),
         (''pl_orbper'', Column (Values [5, 3]) (Some (Unit ''day''))),
         (''pl_radj'', Column (Values [2, 1]) None),
         (''sky_coord'',
          Column (SkyCoord (Quantity [290, 286] (Unit ''deg'')) (Quantity [44, 47] (Unit ''deg''))) None)]\<rparr>"

definition star_cached :: "real client" where
  "star_cached =
     snd (query_star kepler_env ''Kepler-7'' True True (Some ''kepler7b.csv'') False init)"

lemmas run_defs =
  query_planet_def query_star_def get_confirmed_planets_table_def new_str_def init_def
  fetch_table_def obtain_path_def log_event_def kepler_env_def add_sky_coord_def set_col_def
  param_units_def set_unit_def QTable_def py_is_def planet_cached_def kepler7b_table_def
  format_quoted_def strip_def is_space_def apostrophe_def quote_def quote_char_def
  always_safe_def percent_byte_def utf8_def hex_digit_def EXOPLANETS_CSV_URL_def deg_def
  all_cached_def all_planets_table_def star_cached_def

section \<open>Properties\<close>

subsection \<open>The units property and the unit loop\<close>

lemma param_units_frame:
  "self_table (snd (param_units env s)) = self_table s"
  "self_cache_planet (snd (param_units env s)) = self_cache_planet s"
  "self_cache_star (snd (param_units env s)) = self_cache_star s"
  "heap_next (snd (param_units env s)) = heap_next s"
  by (simp_all add: param_units_def log_event_def split: option.split)

lemma param_units_loaded:
  "self_param_units (snd (param_units env s)) = Some (fst (param_units env s))"
  by (simp add: param_units_def log_event_def split: option.split)

lemma param_units_again:
  "fst (param_units env (snd (param_units env s))) = fst (param_units env s)"
  by (simp add: param_units_def log_event_def split: option.split)

lemma param_units_effects:
  "effects (snd (param_units env s)) =
     effects s @ (if self_param_units s = None then [LoadUnits] else [])"
  by (simp add: param_units_def log_event_def split: option.split)

lemma assign_units_frame:
  "assign_units env names cols s = (r, s') \<Longrightarrow>
     self_table s' = self_table s \<and> self_cache_planet s' = self_cache_planet s \<and>
     self_cache_star s' = self_cache_star s \<and> heap_next s' = heap_next s"
proof (induction names arbitrary: cols s)
  case Nil
  then show ?case by simp
next
  case (Cons col rest)
  then show ?case
    by (auto simp: param_units_frame split: option.splits if_splits)
qed

lemma assign_units_effects:
  "assign_units env names cols s = (r, s') \<Longrightarrow>
     effects s' = effects s @ (if names \<noteq> [] \<and> self_param_units s = None then [LoadUnits] else [])"
proof (induction names arbitrary: cols s)
  case Nil
  then show ?case by simp
next
  case (Cons col rest)
  then show ?case
    by (auto simp: param_units_effects param_units_loaded split: option.splits if_splits)
qed

lemma map_of_set_unit:
  "map_of (set_unit name u cols) n =
     map_option (\<lambda>c. if n = name then Column (col_data c) (Some u) else c) (map_of cols n)"
  by (induction cols) (auto simp: set_unit_def)

lemma assign_units_lookup:
  "assign_units env names cols s = (Inr cols', s') \<Longrightarrow>
     map_of cols' n =
       map_option
         (\<lambda>c. if n \<in> set names
              then (case fst (param_units env s) n of
                      None \<Rightarrow> c
                    | Some u \<Rightarrow> if hasattr_u env u then Column (col_data c) (Some (Unit u)) else c)
              else c)
         (map_of cols n)"
proof (induction names arbitrary: cols s)
  case Nil
  then show ?case by (simp add: option.map_ident)
next
  case (Cons col rest)
  show ?case
  proof (cases "fst (param_units env s) col")
    case None
    with Cons.prems have "assign_units env rest cols (snd (param_units env s)) = (Inr cols', s')"
      by simp
    from Cons.IH[OF this] None show ?thesis
      by (cases "map_of cols n") (auto simp: param_units_again)
  next
    case (Some u)
    show ?thesis
    proof (cases "hasattr_u env u")
      case True
      with Some Cons.prems have
        "assign_units env rest (set_unit col (Unit u) cols) (snd (param_units env s)) = (Inr cols', s')"
        by (simp split: if_splits)
      from Cons.IH[OF this] Some True show ?thesis
        by (cases "map_of cols n") (auto simp: param_units_again map_of_set_unit)
    next
      case False
      with Some Cons.prems have
        "assign_units env rest cols (snd (param_units env s)) = (Inr cols', s')"
        by simp
      from Cons.IH[OF this] Some False show ?thesis
        by (cases "map_of cols n") (auto simp: param_units_again)
    qed
  qed
qed


subsection \<open>The shared block\<close>

lemma param_units_cong:
  "self_param_units s = self_param_units s' \<Longrightarrow> fst (param_units env s) = fst (param_units env s')"
  by (simp add: param_units_def split: option.split)

lemma fetch_table_frame:
  "fetch_table env url cache sp tp ac s = (r, s') \<Longrightarrow>
     self_table s' = self_table s \<and> self_cache_planet s' = self_cache_planet s \<and>
     self_cache_star s' = self_cache_star s \<and> heap_next s' = heap_next s"
  by (auto simp: fetch_table_def obtain_path_def log_event_def Let_def
           split: option.splits sum.splits dest!: assign_units_frame)

lemma fetch_table_effects:
  "fetch_table env url cache sp tp ac s = (r, s') \<Longrightarrow>
     \<exists>rest. effects s' =
        effects s @
        (case tp of None \<Rightarrow> [Download (if ac then url @ ''&select=*'' else url) cache sp 120]
                  | Some p \<Rightarrow> []) @ rest
        \<and> length rest \<le> 2 \<and> (\<forall>e \<in> set rest. \<not> is_download e)
        \<and> (tp \<noteq> None \<longrightarrow> rest \<noteq> [])"
  by (auto simp: fetch_table_def obtain_path_def log_event_def Let_def
           split: option.splits sum.splits if_splits dest!: assign_units_effects)

lemma fetch_table_grows:
  "fetch_table env url cache sp tp ac s = (r, s') \<Longrightarrow> length (effects s) < length (effects s')"
  by (drule fetch_table_effects) (auto split: option.splits)

lemma fetch_table_Inr:
  assumes "fetch_table env url cache sp tp ac s = (Inr cols, s')"
  shows "\<exists>path raw cols0 s2.
        (case tp of Some p \<Rightarrow> Some p
                  | None \<Rightarrow> download_file env (if ac then url @ ''&select=*'' else url) cache sp 120)
          = Some path \<and>
        Read path \<in> set (drop (length (effects s)) (effects s')) \<and>
        ascii_read env path = Some raw \<and>
        add_sky_coord raw = Inr cols0 \<and>
        self_param_units s2 = self_param_units s \<and>
        assign_units env (map fst cols0) cols0 s2 = (Inr cols, s')"
proof -
  obtain path s1 where op: "obtain_path env url cache sp tp ac s = (Inr path, s1)"
    using assms by (auto simp: fetch_table_def split: prod.splits sum.splits)
  have res: "(case tp of Some p \<Rightarrow> Some p
                  | None \<Rightarrow> download_file env (if ac then url @ ''&select=*'' else url) cache sp 120)
          = Some path"
    using op by (cases ac; cases tp) (auto simp: obtain_path_def Let_def split: option.splits)
  have s1: "self_param_units s1 = self_param_units s" "length (effects s) \<le> length (effects s1)"
    "\<exists>pre. effects s1 = effects s @ pre"
    using op by (auto simp: obtain_path_def Let_def log_event_def split: option.splits)
  let ?s2 = "log_event (Read path) s1"
  obtain raw where raw: "ascii_read env path = Some raw"
    using assms op by (auto simp: fetch_table_def Let_def split: option.splits)
  obtain cols0 where c0: "add_sky_coord raw = Inr cols0"
    using assms op raw by (auto simp: fetch_table_def Let_def split: sum.splits)
  have au: "assign_units env (map fst cols0) cols0 ?s2 = (Inr cols, s')"
    using assms op raw c0 by (simp add: fetch_table_def Let_def)
  from s1(3) obtain pre where pre: "effects s1 = effects s @ pre" ..
  have "\<exists>post. effects s' = effects s @ pre @ [Read path] @ post"
    using assign_units_effects[OF au] pre by (simp add: log_event_def)
  then have rd: "Read path \<in> set (drop (length (effects s)) (effects s'))"
    by auto
  have "self_param_units ?s2 = self_param_units s"
    using s1 by (simp add: log_event_def)
  with res rd raw c0 au show ?thesis by blast
qed

subsection \<open>The methods, hit and miss\<close>

text \<open>
  A new client is well-formed and every method keeps the state well-formed, so the
  well-formed states include every state a client can be in. In a well-formed state the
  key a call has just made is never the stored one.
\<close>

lemma heap_ok_init: "heap_ok init"
  by (simp add: heap_ok_def init_def)

lemma heap_ok_fresh:
  "heap_ok s \<Longrightarrow> \<not> py_is (self_cache_planet s) \<lparr>oid = heap_next s, chars = k\<rparr>"
  "heap_ok s \<Longrightarrow> \<not> py_is (self_cache_star s) \<lparr>oid = heap_next s, chars = k\<rparr>"
  by (auto simp: heap_ok_def py_is_def split: option.splits)

lemma query_planet_hit:
  "self_table s = Some t \<Longrightarrow>
   py_is (self_cache_planet s) \<lparr>oid = heap_next s, chars = format_quoted (strip name)\<rparr> \<Longrightarrow>
   cache \<Longrightarrow>
   query_planet env name cache sp tp ac s = (Inr t, s\<lparr>heap_next := Suc (heap_next s)\<rparr>)"
  by (simp add: query_planet_def new_str_def py_is_def)

lemma query_planet_miss:
  assumes "\<not> (self_table s \<noteq> None \<and>
              py_is (self_cache_planet s) \<lparr>oid = heap_next s, chars = format_quoted (strip name)\<rparr> \<and>
              cache)"
  shows "query_planet env name cache sp tp ac s =
     (case fetch_table env
             (EXOPLANETS_CSV_URL @ ''&where=pl_name='' @ quote (format_quoted (strip name)))
             cache sp tp ac (s\<lparr>heap_next := Suc (heap_next s)\<rparr>) of
        (Inl e, s1) \<Rightarrow> (Inl e, s1)
      | (Inr cols, s1) \<Rightarrow>
          (Inr \<lparr>tid = heap_next s1, columns = cols\<rparr>,
           s1\<lparr>heap_next := Suc (heap_next s1),
              self_table := Some \<lparr>tid = heap_next s1, columns = cols\<rparr>,
              self_cache_planet := Some \<lparr>oid = heap_next s, chars = format_quoted (strip name)\<rparr>\<rparr>))"
  using assms
  by (auto simp: query_planet_def new_str_def py_is_def QTable_def Let_def
           split: option.splits prod.splits sum.splits)

lemma query_star_hit:
  "self_table s = Some t \<Longrightarrow>
   py_is (self_cache_star s) \<lparr>oid = heap_next s, chars = format_quoted (strip name)\<rparr> \<Longrightarrow>
   cache \<Longrightarrow>
   query_star env name cache sp tp ac s = (Inr t, s\<lparr>heap_next := Suc (heap_next s)\<rparr>)"
  by (simp add: query_star_def new_str_def py_is_def)

lemma query_star_miss:
  assumes "\<not> (self_table s \<noteq> None \<and>
              py_is (self_cache_star s) \<lparr>oid = heap_next s, chars = format_quoted (strip name)\<rparr> \<and>
              cache)"
  shows "query_star env name cache sp tp ac s =
     (case fetch_table env
             (EXOPLANETS_CSV_URL @ ''&where=pl_hostname='' @ quote (format_quoted (strip name)))
             cache sp tp ac (s\<lparr>heap_next := Suc (heap_next s)\<rparr>) of
        (Inl e, s1) \<Rightarrow> (Inl e, s1)
      | (Inr cols, s1) \<Rightarrow>
          (Inr \<lparr>tid = heap_next s1, columns = cols\<rparr>,
           s1\<lparr>heap_next := Suc (heap_next s1),
              self_table := Some \<lparr>tid = heap_next s1, columns = cols\<rparr>,
              self_cache_star := Some \<lparr>oid = heap_next s, chars = format_quoted (strip name)\<rparr>\<rparr>))"
  using assms
  by (auto simp: query_star_def new_str_def py_is_def QTable_def Let_def
           split: option.splits prod.splits sum.splits)

lemma get_confirmed_planets_table_hit:
  "self_table s = Some t \<Longrightarrow>
   get_confirmed_planets_table env tp ac cache sp s = (Inr t, s)"
  by (simp add: get_confirmed_planets_table_def)

lemma get_confirmed_planets_table_miss:
  assumes "self_table s = None"
  shows "get_confirmed_planets_table env tp ac cache sp s =
     (case fetch_table env EXOPLANETS_CSV_URL cache sp tp ac s of
        (Inl e, s1) \<Rightarrow> (Inl e, s1)
      | (Inr cols, s1) \<Rightarrow>
          (Inr \<lparr>tid = heap_next s1, columns = cols\<rparr>,
           s1\<lparr>heap_next := Suc (heap_next s1),
              self_table := Some \<lparr>tid = heap_next s1, columns = cols\<rparr>\<rparr>))"
  using assms
  by (auto simp: get_confirmed_planets_table_def QTable_def Let_def
           split: option.splits prod.splits sum.splits)

lemma heap_ok_query_planet:
  assumes "heap_ok s" and "query_planet env name cache sp tp ac s = (r, s')"
  shows "heap_ok s'"
proof -
  obtain r0 s1 where f: "fetch_table env
             (EXOPLANETS_CSV_URL @ ''&where=pl_name='' @ quote (format_quoted (strip name)))
             cache sp tp ac (s\<lparr>heap_next := Suc (heap_next s)\<rparr>) = (r0, s1)"
    by (cases "fetch_table env
             (EXOPLANETS_CSV_URL @ ''&where=pl_name='' @ quote (format_quoted (strip name)))
             cache sp tp ac (s\<lparr>heap_next := Suc (heap_next s)\<rparr>)") auto
  from fetch_table_frame[OF f] assms(1) have "heap_ok s1"
    by (auto simp: heap_ok_def split: option.splits)
  moreover note fetch_table_frame[OF f]
  ultimately show ?thesis
    using assms(2) f heap_ok_fresh(1)[OF assms(1)]
    by (cases r0) (auto simp: query_planet_miss heap_ok_def split: option.splits)
qed

lemma heap_ok_query_star:
  assumes "heap_ok s" and "query_star env name cache sp tp ac s = (r, s')"
  shows "heap_ok s'"
proof -
  obtain r0 s1 where f: "fetch_table env
             (EXOPLANETS_CSV_URL @ ''&where=pl_hostname='' @ quote (format_quoted (strip name)))
             cache sp tp ac (s\<lparr>heap_next := Suc (heap_next s)\<rparr>) = (r0, s1)"
    by (cases "fetch_table env
             (EXOPLANETS_CSV_URL @ ''&where=pl_hostname='' @ quote (format_quoted (strip name)))
             cache sp tp ac (s\<lparr>heap_next := Suc (heap_next s)\<rparr>)") auto
  from fetch_table_frame[OF f] assms(1) have "heap_ok s1"
    by (auto simp: heap_ok_def split: option.splits)
  moreover note fetch_table_frame[OF f]
  ultimately show ?thesis
    using assms(2) f heap_ok_fresh(2)[OF assms(1)]
    by (cases r0) (auto simp: query_star_miss heap_ok_def split: option.splits)
qed

lemma heap_ok_get_confirmed_planets_table:
  assumes "heap_ok s" and "get_confirmed_planets_table env tp ac cache sp s = (r, s')"
  shows "heap_ok s'"
proof (cases "self_table s")
  case (Some t)
  with assms show ?thesis by (simp add: get_confirmed_planets_table_hit)
next
  case None
  obtain r0 s1 where f: "fetch_table env EXOPLANETS_CSV_URL cache sp tp ac s = (r0, s1)"
    by (cases "fetch_table env EXOPLANETS_CSV_URL cache sp tp ac s") auto
  from fetch_table_frame[OF f] assms(1) have "heap_ok s1"
    by (auto simp: heap_ok_def split: option.splits)
  moreover note fetch_table_frame[OF f]
  ultimately show ?thesis
    using assms(2) f None
    by (cases r0) (auto simp: get_confirmed_planets_table_miss heap_ok_def split: option.splits)
qed

text \<open>Every fetch extends the log, and its result is the outcome of the shared block.\<close>

lemma query_planet_miss_grows:
  assumes "\<not> (self_table s \<noteq> None \<and>
              py_is (self_cache_planet s) \<lparr>oid = heap_next s, chars = format_quoted (strip name)\<rparr> \<and>
              cache)"
  shows "length (effects s) < length (effects (snd (query_planet env name cache sp tp ac s)))"
proof -
  obtain r0 s1 where f: "fetch_table env
             (EXOPLANETS_CSV_URL @ ''&where=pl_name='' @ quote (format_quoted (strip name)))
             cache sp tp ac (s\<lparr>heap_next := Suc (heap_next s)\<rparr>) = (r0, s1)"
    by (cases "fetch_table env
             (EXOPLANETS_CSV_URL @ ''&where=pl_name='' @ quote (format_quoted (strip name)))
             cache sp tp ac (s\<lparr>heap_next := Suc (heap_next s)\<rparr>)") auto
  from fetch_table_grows[OF f] have "length (effects s) < length (effects s1)" by simp
  then show ?thesis
    using f by (cases r0) (simp_all add: query_planet_miss[OF assms])
qed

lemma query_star_miss_grows:
  assumes "\<not> (self_table s \<noteq> None \<and>
              py_is (self_cache_star s) \<lparr>oid = heap_next s, chars = format_quoted (strip name)\<rparr> \<and>
              cache)"
  shows "length (effects s) < length (effects (snd (query_star env name cache sp tp ac s)))"
proof -
  obtain r0 s1 where f: "fetch_table env
             (EXOPLANETS_CSV_URL @ ''&where=pl_hostname='' @ quote (format_quoted (strip name)))
             cache sp tp ac (s\<lparr>heap_next := Suc (heap_next s)\<rparr>) = (r0, s1)"
    by (cases "fetch_table env
             (EXOPLANETS_CSV_URL @ ''&where=pl_hostname='' @ quote (format_quoted (strip name)))
             cache sp tp ac (s\<lparr>heap_next := Suc (heap_next s)\<rparr>)") auto
  from fetch_table_grows[OF f] have "length (effects s) < length (effects s1)" by simp
  then show ?thesis
    using f by (cases r0) (simp_all add: query_star_miss[OF assms])
qed

lemma get_confirmed_planets_table_miss_grows:
  assumes "self_table s = None"
  shows "length (effects s) <
           length (effects (snd (get_confirmed_planets_table env tp ac cache sp s)))"
proof -
  obtain r0 s1 where f: "fetch_table env EXOPLANETS_CSV_URL cache sp tp ac s = (r0, s1)"
    by (cases "fetch_table env EXOPLANETS_CSV_URL cache sp tp ac s") auto
  from fetch_table_grows[OF f] show ?thesis
    using f by (cases r0) (simp_all add: get_confirmed_planets_table_miss[OF assms])
qed

lemma heap_ok_miss_planet:
  "heap_ok s \<Longrightarrow>
     \<not> (self_table s \<noteq> None \<and>
        py_is (self_cache_planet s) \<lparr>oid = heap_next s, chars = k\<rparr> \<and> cache)"
  by (simp add: heap_ok_fresh)

lemma heap_ok_miss_star:
  "heap_ok s \<Longrightarrow>
     \<not> (self_table s \<noteq> None \<and>
        py_is (self_cache_star s) \<lparr>oid = heap_next s, chars = k\<rparr> \<and> cache)"
  by (simp add: heap_ok_fresh)

lemma query_planet_result:
  assumes "\<not> (self_table s \<noteq> None \<and>
              py_is (self_cache_planet s) \<lparr>oid = heap_next s, chars = format_quoted (strip name)\<rparr> \<and>
              cache)"
    and "query_planet env name cache sp tp ac s = (r, s')"
  shows "r = map_sum id (\<lambda>cols. \<lparr>tid = Suc (heap_next s), columns = cols\<rparr>)
               (fst (fetch_table env
                  (EXOPLANETS_CSV_URL @ ''&where=pl_name='' @ quote (format_quoted (strip name)))
                  cache sp tp ac (s\<lparr>heap_next := Suc (heap_next s)\<rparr>)))"
    and "\<And>t. r = Inr t \<Longrightarrow> self_table s' = Some t"
    and "\<And>t. r = Inr t \<Longrightarrow>
           self_cache_planet s' = Some \<lparr>oid = heap_next s, chars = format_quoted (strip name)\<rparr>"
    and "\<And>e. r = Inl e \<Longrightarrow>
           self_table s' = self_table s \<and> self_cache_planet s' = self_cache_planet s"
    and "self_cache_star s' = self_cache_star s"
proof -
  define u where "u = EXOPLANETS_CSV_URL @ ''&where=pl_name='' @ quote (format_quoted (strip name))"
  obtain r0 s1 where f: "fetch_table env u cache sp tp ac (s\<lparr>heap_next := Suc (heap_next s)\<rparr>) = (r0, s1)"
    by (cases "fetch_table env u cache sp tp ac (s\<lparr>heap_next := Suc (heap_next s)\<rparr>)") auto
  note fr = fetch_table_frame[OF f]
  note eq = assms(2)[unfolded query_planet_miss[OF assms(1)], folded u_def, unfolded f]
  show "r = map_sum id (\<lambda>cols. \<lparr>tid = Suc (heap_next s), columns = cols\<rparr>)
               (fst (fetch_table env
                  (EXOPLANETS_CSV_URL @ ''&where=pl_name='' @ quote (format_quoted (strip name)))
                  cache sp tp ac (s\<lparr>heap_next := Suc (heap_next s)\<rparr>)))"
    unfolding u_def[symmetric] using eq fr by (cases r0) (auto simp: f)
  show "\<And>t. r = Inr t \<Longrightarrow> self_table s' = Some t"
    using eq fr by (cases r0) auto
  show "\<And>t. r = Inr t \<Longrightarrow>
           self_cache_planet s' = Some \<lparr>oid = heap_next s, chars = format_quoted (strip name)\<rparr>"
    using eq fr by (cases r0) auto
  show "\<And>e. r = Inl e \<Longrightarrow>
           self_table s' = self_table s \<and> self_cache_planet s' = self_cache_planet s"
    using eq fr by (cases r0) auto
  show "self_cache_star s' = self_cache_star s"
    using eq fr by (cases r0) auto
qed

lemma query_star_result:
  assumes "\<not> (self_table s \<noteq> None \<and>
              py_is (self_cache_star s) \<lparr>oid = heap_next s, chars = format_quoted (strip name)\<rparr> \<and>
              cache)"
    and "query_star env name cache sp tp ac s = (r, s')"
  shows "r = map_sum id (\<lambda>cols. \<lparr>tid = Suc (heap_next s), columns = cols\<rparr>)
               (fst (fetch_table env
                  (EXOPLANETS_CSV_URL @ ''&where=pl_hostname='' @ quote (format_quoted (strip name)))
                  cache sp tp ac (s\<lparr>heap_next := Suc (heap_next s)\<rparr>)))"
    and "\<And>t. r = Inr t \<Longrightarrow> self_table s' = Some t"
    and "\<And>t. r = Inr t \<Longrightarrow>
           self_cache_star s' = Some \<lparr>oid = heap_next s, chars = format_quoted (strip name)\<rparr>"
    and "\<And>e. r = Inl e \<Longrightarrow>
           self_table s' = self_table s \<and> self_cache_star s' = self_cache_star s"
    and "self_cache_planet s' = self_cache_planet s"
proof -
  define u where "u = EXOPLANETS_CSV_URL @ ''&where=pl_hostname='' @ quote (format_quoted (strip name))"
  obtain r0 s1 where f: "fetch_table env u cache sp tp ac (s\<lparr>heap_next := Suc (heap_next s)\<rparr>) = (r0, s1)"
    by (cases "fetch_table env u cache sp tp ac (s\<lparr>heap_next := Suc (heap_next s)\<rparr>)") auto
  note fr = fetch_table_frame[OF f]
  note eq = assms(2)[unfolded query_star_miss[OF assms(1)], folded u_def, unfolded f]
  show "r = map_sum id (\<lambda>cols. \<lparr>tid = Suc (heap_next s), columns = cols\<rparr>)
               (fst (fetch_table env
                  (EXOPLANETS_CSV_URL @ ''&where=pl_hostname='' @ quote (format_quoted (strip name)))
                  cache sp tp ac (s\<lparr>heap_next := Suc (heap_next s)\<rparr>)))"
    unfolding u_def[symmetric] using eq fr by (cases r0) (auto simp: f)
  show "\<And>t. r = Inr t \<Longrightarrow> self_table s' = Some t"
    using eq fr by (cases r0) auto
  show "\<And>t. r = Inr t \<Longrightarrow>
           self_cache_star s' = Some \<lparr>oid = heap_next s, chars = format_quoted (strip name)\<rparr>"
    using eq fr by (cases r0) auto
  show "\<And>e. r = Inl e \<Longrightarrow>
           self_table s' = self_table s \<and> self_cache_star s' = self_cache_star s"
    using eq fr by (cases r0) auto
  show "self_cache_planet s' = self_cache_planet s"
    using eq fr by (cases r0) auto
qed

lemma get_confirmed_planets_table_result:
  assumes "self_table s = None" and "get_confirmed_planets_table env tp ac cache sp s = (r, s')"
  shows "r = map_sum id (\<lambda>cols. \<lparr>tid = heap_next s, columns = cols\<rparr>)
               (fst (fetch_table env EXOPLANETS_CSV_URL cache sp tp ac s))"
    and "\<And>t. r = Inr t \<Longrightarrow> self_table s' = Some t"
    and "\<And>e. r = Inl e \<Longrightarrow> self_table s' = None"
    and "self_cache_planet s' = self_cache_planet s"
    and "self_cache_star s' = self_cache_star s"
proof -
  obtain r0 s1 where f: "fetch_table env EXOPLANETS_CSV_URL cache sp tp ac s = (r0, s1)"
    by (cases "fetch_table env EXOPLANETS_CSV_URL cache sp tp ac s") auto
  note fr = fetch_table_frame[OF f]
  note eq = assms(2)[unfolded get_confirmed_planets_table_miss[OF assms(1)] f]
  show "r = map_sum id (\<lambda>cols. \<lparr>tid = heap_next s, columns = cols\<rparr>)
               (fst (fetch_table env EXOPLANETS_CSV_URL cache sp tp ac s))"
    using eq fr by (cases r0) (auto simp: f)
  show "\<And>t. r = Inr t \<Longrightarrow> self_table s' = Some t"
    using eq fr by (cases r0) auto
  show "\<And>e. r = Inl e \<Longrightarrow> self_table s' = None"
    using eq fr assms(1) by (cases r0) auto
  show "self_cache_planet s' = self_cache_planet s"
    using eq fr by (cases r0) auto
  show "self_cache_star s' = self_cache_star s"
    using eq fr by (cases r0) auto
qed

lemma stored_table_is_old:
  assumes "heap_ok s" and "self_table s = Some t"
  shows "map_sum id (\<lambda>cols. \<lparr>tid = Suc (heap_next s), columns = cols\<rparr>) x \<noteq> Inr t"
  using assms by (cases x) (auto simp: heap_ok_def)

subsection \<open>Strings, columns and the outcome of a fetch\<close>

text \<open>What \<^verbatim>\<open>quote\<close> and \<^verbatim>\<open>strip\<close> return.\<close>

lemma hex_digit_safe: "always_safe (hex_digit n)"
proof -
  have all: "\<forall>c \<in> set ''0123456789ABCDEF''. always_safe c"
    by (simp add: always_safe_def)
  have "n mod 16 < length ''0123456789ABCDEF''" by simp
  then have "''0123456789ABCDEF'' ! (n mod 16) \<in> set ''0123456789ABCDEF''"
    by (rule nth_mem)
  with all show ?thesis
    unfolding hex_digit_def by blast
qed

lemma percent_byte_chars:
  "c \<in> set (percent_byte b) \<Longrightarrow> always_safe c \<or> c = CHR ''%''"
  by (auto simp: percent_byte_def hex_digit_safe)

lemma quote_char_chars:
  "c \<in> set (quote_char x) \<Longrightarrow> always_safe c \<or> c = CHR ''/'' \<or> c = CHR ''%''"
  by (auto simp: quote_char_def dest: percent_byte_chars split: if_splits)

lemma quote_chars:
  "c \<in> set (quote x) \<Longrightarrow> always_safe c \<or> c = CHR ''/'' \<or> c = CHR ''%''"
  by (auto simp: quote_def dest: quote_char_chars)

lemma star_not_in_quote: "CHR ''*'' \<notin> set (quote x)"
proof
  assume "CHR ''*'' \<in> set (quote x)"
  from quote_chars[OF this] show False
    by (simp add: always_safe_def)
qed

lemma strip_right:
  "dropWhile is_space s = strip s @ rev (takeWhile is_space (rev (dropWhile is_space s)))"
proof -
  let ?m = "dropWhile is_space s"
  have "strip s @ rev (takeWhile is_space (rev ?m)) =
          rev (takeWhile is_space (rev ?m) @ dropWhile is_space (rev ?m))"
    by (simp only: strip_def rev_append)
  also have "\<dots> = rev (rev ?m)"
    by (simp only: takeWhile_dropWhile_id)
  also have "\<dots> = ?m"
    by (simp only: rev_rev_ident)
  finally show ?thesis by (rule sym)
qed

lemma strip_decomposition:
  "\<exists>pre post. s = pre @ strip s @ post \<and> (\<forall>c \<in> set pre. is_space c) \<and> (\<forall>c \<in> set post. is_space c)"
proof -
  let ?m = "dropWhile is_space s"
  have "s = takeWhile is_space s @ ?m" by simp
  also note strip_right[of s]
  finally have e: "s = takeWhile is_space s @ strip s @ rev (takeWhile is_space (rev ?m))" .
  have c: "\<forall>c \<in> set (takeWhile is_space s). is_space c"
    by (auto dest: set_takeWhileD)
  have d: "\<forall>c \<in> set (rev (takeWhile is_space (rev ?m))). is_space c"
    by (auto dest: set_takeWhileD)
  from e c d show ?thesis by blast
qed

lemma strip_ends:
  assumes "strip s \<noteq> []"
  shows "\<not> is_space (hd (strip s))" and "\<not> is_space (last (strip s))"
proof -
  let ?m = "dropWhile is_space s"
  let ?d = "dropWhile is_space (rev ?m)"
  have d: "?d \<noteq> []" using assms by (simp only: strip_def rev_is_Nil_conv not_False_eq_True)
  then have "\<not> is_space (hd ?d)" by (rule hd_dropWhile)
  moreover have "last (strip s) = hd ?d"
    using d by (simp only: strip_def last_rev)
  ultimately show "\<not> is_space (last (strip s))" by simp
  have m: "?m \<noteq> []"
  proof
    assume "?m = []"
    then have "?d = []" by (simp only: rev.simps dropWhile.simps)
    with d show False by contradiction
  qed
  then have nm: "\<not> is_space (hd ?m)" by (rule hd_dropWhile)
  have "hd ?m = hd (strip s @ rev (takeWhile is_space (rev ?m)))"
    using strip_right[of s] by simp
  also have "\<dots> = hd (strip s)" using assms by (rule hd_append2)
  finally show "\<not> is_space (hd (strip s))" using nm by simp
qed

lemma fetch_table_first_download:
  "\<exists>rest. effects (snd (fetch_table env url cache sp None ac s)) =
      effects s @ Download (url @ (if ac then ''&select=*'' else [])) cache sp 120 # rest"
proof -
  obtain r s' where f: "fetch_table env url cache sp None ac s = (r, s')"
    by (cases "fetch_table env url cache sp None ac s") auto
  from fetch_table_effects[OF f] have
    "\<exists>rest. effects s' = effects s @ Download (url @ (if ac then ''&select=*'' else [])) cache sp 120 # rest"
    by (cases ac) auto
  then show ?thesis by (simp add: f)
qed

lemma base_url_no_star: "CHR ''*'' \<notin> set EXOPLANETS_CSV_URL"
  by (simp add: EXOPLANETS_CSV_URL_def)

lemma fetch_table_download_fails:
  "download_file env (url @ (if ac then ''&select=*'' else [])) cache sp 120 = None \<Longrightarrow>
     fetch_table env url cache sp None ac s =
       (Inl FetchError,
        s\<lparr>effects := effects s @ [Download (url @ (if ac then ''&select=*'' else [])) cache sp 120]\<rparr>)"
  by (cases ac) (simp_all add: fetch_table_def obtain_path_def log_event_def Let_def)

lemma fetch_table_parse_fails:
  "(case tp of Some p \<Rightarrow> Some p
             | None \<Rightarrow> download_file env (url @ (if ac then ''&select=*'' else [])) cache sp 120)
     = Some path \<Longrightarrow>
   ascii_read env path = None \<Longrightarrow>
   fst (fetch_table env url cache sp tp ac s) = Inl ParseError"
  by (cases ac; cases tp) (simp_all add: fetch_table_def obtain_path_def log_event_def Let_def)

lemma fetch_table_downloads:
  assumes "fetch_table env url cache sp tp ac s = (r, s')"
  shows "length (filter is_download (drop (length (effects s)) (effects s'))) \<le> 1"
    and "Download u c p t \<in> set (drop (length (effects s)) (effects s')) \<Longrightarrow> t = 120"
proof -
  from fetch_table_effects[OF assms] obtain rest where
    e: "effects s' = effects s @
        (case tp of None \<Rightarrow> [Download (if ac then url @ ''&select=*'' else url) cache sp 120]
                  | Some p \<Rightarrow> []) @ rest"
    and nd: "\<forall>e \<in> set rest. \<not> is_download e"
    by blast
  from nd have f: "filter is_download rest = []"
    by (simp add: filter_empty_conv)
  show "length (filter is_download (drop (length (effects s)) (effects s'))) \<le> 1"
    unfolding e using f by (cases tp) simp_all
  assume "Download u c p t \<in> set (drop (length (effects s)) (effects s'))"
  then show "t = 120"
    unfolding e using nd by (cases tp) (auto split: if_splits)
qed

text \<open>The columns of a fetched table, read by name.\<close>

lemma map_of_replace:
  "map_of (map (\<lambda>(n, x). if n = name then (n, c) else (n, x)) cols) n =
     (if n = name then (if name \<in> fst ` set cols then Some c else None) else map_of cols n)"
  by (induction cols) (auto, force)

lemma map_of_set_col:
  "map_of (set_col name c cols) n = (if n = name then Some c else map_of cols n)"
proof (cases "name \<in> set (map fst cols)")
  case True
  then show ?thesis by (simp add: set_col_def map_of_replace)
next
  case False
  then have "map_of cols name = None"
    by (simp add: map_of_eq_None_iff)
  with False show ?thesis
    by (auto simp: set_col_def map_add_def split: option.splits)
qed

lemma map_of_unitless:
  "map_of (map (\<lambda>(n, vs). (n, Column (Values vs) None)) raw) n =
     map_option (\<lambda>vs. Column (Values vs) None) (map_of raw n)"
  by (induction raw) auto

lemma add_sky_coord_Inr:
  assumes "add_sky_coord raw = Inr cols0"
  shows "\<exists>ras decs. map_of raw ''ra'' = Some ras \<and> map_of raw ''dec'' = Some decs \<and>
           (\<forall>n. map_of cols0 n =
              (if n = ''sky_coord''
               then Some (Column (SkyCoord (Quantity ras deg) (Quantity decs deg)) None)
               else map_option (\<lambda>vs. Column (Values vs) None) (map_of raw n)))"
  using assms
  by (auto simp: add_sky_coord_def map_of_set_col map_of_unitless split: option.splits)

lemma fetch_table_annotated:
  assumes "fetch_table env url cache sp tp ac s = (Inr cols, s')"
  shows "\<exists>path raw ras decs.
           Read path \<in> set (drop (length (effects s)) (effects s')) \<and>
           ascii_read env path = Some raw \<and>
           map_of raw ''ra'' = Some ras \<and> map_of raw ''dec'' = Some decs \<and>
           (\<exists>u. map_of cols ''sky_coord''
                   = Some (Column (SkyCoord (Quantity ras deg) (Quantity decs deg)) u)) \<and>
           (\<forall>n vs. n \<noteq> ''sky_coord'' \<and> map_of raw n = Some vs \<longrightarrow>
              map_of cols n =
                Some (Column (Values vs)
                        (case fst (param_units env s) n of
                           None \<Rightarrow> None
                         | Some u \<Rightarrow> if hasattr_u env u then Some (Unit u) else None)))"
proof -
  from fetch_table_Inr[OF assms] obtain path raw cols0 s2 where
    rd: "Read path \<in> set (drop (length (effects s)) (effects s'))"
    and raw: "ascii_read env path = Some raw"
    and c0: "add_sky_coord raw = Inr cols0"
    and pu: "self_param_units s2 = self_param_units s"
    and au: "assign_units env (map fst cols0) cols0 s2 = (Inr cols, s')"
    by blast
  from add_sky_coord_Inr[OF c0] obtain ras decs where
    ra: "map_of raw ''ra'' = Some ras" and de: "map_of raw ''dec'' = Some decs"
    and l0: "\<And>n. map_of cols0 n =
              (if n = ''sky_coord''
               then Some (Column (SkyCoord (Quantity ras deg) (Quantity decs deg)) None)
               else map_option (\<lambda>vs. Column (Values vs) None) (map_of raw n))"
    by blast
  note lk = assign_units_lookup[OF au]
  have same: "fst (param_units env s2) = fst (param_units env s)"
    using pu by (rule param_units_cong)
  have sky: "\<exists>u. map_of cols ''sky_coord''
                   = Some (Column (SkyCoord (Quantity ras deg) (Quantity decs deg)) u)"
    unfolding lk[of "''sky_coord''"] l0 by (simp split: option.split)
  have others: "map_of cols n =
                Some (Column (Values vs)
                        (case fst (param_units env s) n of
                           None \<Rightarrow> None
                         | Some u \<Rightarrow> if hasattr_u env u then Some (Unit u) else None))"
    if n: "n \<noteq> ''sky_coord''" and v: "map_of raw n = Some vs" for n vs
  proof -
    have m0: "map_of cols0 n = Some (Column (Values vs) None)"
      using n v by (simp add: l0)
    then have "(n, Column (Values vs) None) \<in> set cols0" by (rule map_of_SomeD)
    then have "n \<in> set (map fst cols0)" by force
    then show ?thesis
      unfolding lk[of n] m0 same by (simp split: option.split)
  qed
  from rd raw ra de sky others show ?thesis by blast
qed


lemma query_planet_Inr:
  assumes "heap_ok s" and "query_planet env name cache sp tp ac s = (Inr t, s')"
  shows "\<exists>url s1. fetch_table env url cache sp tp ac (s\<lparr>heap_next := Suc (heap_next s)\<rparr>)
                    = (Inr (columns t), s1) \<and> effects s' = effects s1"
proof -
  define u where "u = EXOPLANETS_CSV_URL @ ''&where=pl_name='' @ quote (format_quoted (strip name))"
  obtain r0 s1 where f: "fetch_table env u cache sp tp ac (s\<lparr>heap_next := Suc (heap_next s)\<rparr>) = (r0, s1)"
    by (cases "fetch_table env u cache sp tp ac (s\<lparr>heap_next := Suc (heap_next s)\<rparr>)") auto
  note eq = assms(2)[unfolded query_planet_miss[OF heap_ok_miss_planet[OF assms(1)]], folded u_def,
                     unfolded f]
  from eq have "r0 = Inr (columns t) \<and> effects s' = effects s1"
    by (cases r0) auto
  with f show ?thesis by blast
qed


section \<open>Claims\<close>

subsection \<open>The cache\<close>

text \<open>
  C1. The claim is that a second \<^verbatim>\<open>query_planet\<close> call with the same name,
  \<^verbatim>\<open>cache=True\<close> and the same local file returns the table stored by the first call
  without parsing again. The method compares the stored key with the new one by \<^verbatim>\<open>is\<close>,
  and the new key is a string that \<^verbatim>\<open>format\<close> has just made, so the comparison fails.
  On the example archive the first call stores the table with identity 1 after one read;
  the second call reads the file again and returns a new table, with identity 3.
\<close>

theorem query_planet_second_call_parses_again:
  "fst (query_planet kepler_env ''Kepler-7 b'' True True (Some ''kepler7b.csv'') False init)
     = Inr (kepler7b_table 1) \<and>
   self_table planet_cached = Some (kepler7b_table 1) \<and>
   effects planet_cached = [Read ''kepler7b.csv'', LoadUnits] \<and>
   fst (query_planet kepler_env ''Kepler-7 b'' True True (Some ''kepler7b.csv'') False planet_cached)
     = Inr (kepler7b_table 3) \<and>
   effects (snd (query_planet kepler_env ''Kepler-7 b'' True True (Some ''kepler7b.csv'') False
                   planet_cached))
     = [Read ''kepler7b.csv'', LoadUnits, Read ''kepler7b.csv'']"
  by (simp add: run_defs)

text \<open>
  C2, as amended. After \<^verbatim>\<open>get_confirmed_planets_table\<close> has returned a table, which is
  then the stored one, a \<^verbatim>\<open>query_planet\<close> call with \<^verbatim>\<open>cache=True\<close> for a name that is
  not the stored planet key (a new client has no planet key) does not return that table:
  its result is the outcome of its own download and parse with the planet filter, the log
  grows, and on success the new table is the stored one.
\<close>

theorem query_planet_after_get_confirmed_planets_table:
  assumes "heap_ok s"
    and "get_confirmed_planets_table env tp0 ac0 c0 sp0 s = (Inr t, s1)"
    and "map_option chars (self_cache_planet s) \<noteq> Some (format_quoted (strip name))"
    and "query_planet env name True sp tp ac s1 = (r, s2)"
  shows "self_table s1 = Some t \<and>
         r = map_sum id (\<lambda>cols. \<lparr>tid = Suc (heap_next s1), columns = cols\<rparr>)
               (fst (fetch_table env
                  (EXOPLANETS_CSV_URL @ ''&where=pl_name='' @ quote (format_quoted (strip name)))
                  True sp tp ac (s1\<lparr>heap_next := Suc (heap_next s1)\<rparr>))) \<and>
         r \<noteq> Inr t \<and>
         length (effects s1) < length (effects s2) \<and>
         (\<forall>t'. r = Inr t' \<longrightarrow> self_table s2 = Some t')"
proof -
  have ok1: "heap_ok s1"
    using assms(1,2) by (rule heap_ok_get_confirmed_planets_table)
  have stored: "self_table s1 = Some t"
  proof (cases "self_table s")
    case None
    from get_confirmed_planets_table_result(2)[OF None assms(2)] show ?thesis by simp
  next
    case (Some t0)
    with assms(2) show ?thesis by (simp add: get_confirmed_planets_table_hit)
  qed
  note miss = heap_ok_miss_planet[OF ok1, of "format_quoted (strip name)" True]
  note res = query_planet_result[OF miss assms(4)]
  have new: "r \<noteq> Inr t"
    unfolding res(1) by (rule stored_table_is_old[OF ok1 stored])
  have grows: "length (effects s1) < length (effects s2)"
    using query_planet_miss_grows[OF miss, of env sp tp ac] assms(4) by simp
  from stored res(1) new grows res(2) show ?thesis by blast
qed

theorem query_planet_after_get_confirmed_planets_table_witness:
  "heap_ok (init :: real client) \<and>
   get_confirmed_planets_table kepler_env None False True True init
     = (Inr all_planets_table, all_cached) \<and>
   map_option chars (self_cache_planet (init :: real client))
     \<noteq> Some (format_quoted (strip ''Kepler-7 b'')) \<and>
   fst (query_planet kepler_env ''Kepler-7 b'' True True None False all_cached)
     \<noteq> Inr all_planets_table \<and>
   length (effects all_cached)
     < length (effects (snd (query_planet kepler_env ''Kepler-7 b'' True True None False all_cached)))"
proof -
  have h1: "heap_ok (init :: real client)"
    by (simp add: heap_ok_def init_def)
  have "fst (get_confirmed_planets_table kepler_env None False True True init)
          = Inr all_planets_table"
    by (simp add: run_defs all_planets_table_def)
  then have h2: "get_confirmed_planets_table kepler_env None False True True init
                   = (Inr all_planets_table, all_cached)"
    by (simp add: all_cached_def prod_eq_iff)
  have h3: "map_option chars (self_cache_planet (init :: real client))
              \<noteq> Some (format_quoted (strip ''Kepler-7 b''))"
    by (simp add: init_def)
  have h4: "query_planet kepler_env ''Kepler-7 b'' True True None False all_cached
              = (fst (query_planet kepler_env ''Kepler-7 b'' True True None False all_cached),
                 snd (query_planet kepler_env ''Kepler-7 b'' True True None False all_cached))"
    by simp
  from query_planet_after_get_confirmed_planets_table [OF h1 h2 h3 h4] h1 h2 h3
  show ?thesis by blast
qed

text \<open>
  C2 as it was stated fails on a new client: after the unfiltered table was fetched, the
  planet query does not return it and does not leave the log as it was.
\<close>

theorem query_planet_after_all_counterexample:
  "self_table all_cached = Some all_planets_table \<and>
   \<not> (fst (query_planet kepler_env ''Kepler-7 b'' True True None False all_cached)
         = Inr all_planets_table \<and>
       effects (snd (query_planet kepler_env ''Kepler-7 b'' True True None False all_cached))
         = effects all_cached)"
  by (simp add: run_defs all_cached_def all_planets_table_def)

text \<open>
  C3, as amended. \<^verbatim>\<open>query_planet\<close> and \<^verbatim>\<open>query_star\<close> return without any input or
  output exactly when a table is stored, the stored key of their kind is (by \<^verbatim>\<open>is\<close>) the
  key of the call, and \<^verbatim>\<open>cache\<close> is true. \<^verbatim>\<open>get_confirmed_planets_table\<close> returns
  without any input or output exactly when a table is stored: its \<^verbatim>\<open>cache\<close> argument
  and the keys have no part in it.
\<close>

theorem cache_hit_conditions:
  "((effects (snd (query_planet env name cache sp tp ac s)) = effects s) =
      (self_table s \<noteq> None \<and>
       py_is (self_cache_planet s) \<lparr>oid = heap_next s, chars = format_quoted (strip name)\<rparr> \<and>
       cache)) \<and>
   ((effects (snd (query_star env name cache sp tp ac s)) = effects s) =
      (self_table s \<noteq> None \<and>
       py_is (self_cache_star s) \<lparr>oid = heap_next s, chars = format_quoted (strip name)\<rparr> \<and>
       cache)) \<and>
   ((effects (snd (get_confirmed_planets_table env tp ac cache sp s)) = effects s) =
      (self_table s \<noteq> None))"
proof (intro conjI)
  let ?P = "self_table s \<noteq> None \<and>
       py_is (self_cache_planet s) \<lparr>oid = heap_next s, chars = format_quoted (strip name)\<rparr> \<and>
       cache"
  show "(effects (snd (query_planet env name cache sp tp ac s)) = effects s) = ?P"
  proof (cases ?P)
    case True
    then show ?thesis by (auto simp: query_planet_hit)
  next
    case False
    from query_planet_miss_grows[OF False, of env sp tp ac] False show ?thesis by auto
  qed
  let ?S = "self_table s \<noteq> None \<and>
       py_is (self_cache_star s) \<lparr>oid = heap_next s, chars = format_quoted (strip name)\<rparr> \<and>
       cache"
  show "(effects (snd (query_star env name cache sp tp ac s)) = effects s) = ?S"
  proof (cases ?S)
    case True
    then show ?thesis by (auto simp: query_star_hit)
  next
    case False
    from query_star_miss_grows[OF False, of env sp tp ac] False show ?thesis by auto
  qed
  show "(effects (snd (get_confirmed_planets_table env tp ac cache sp s)) = effects s) =
      (self_table s \<noteq> None)"
  proof (cases "self_table s")
    case None
    from get_confirmed_planets_table_miss_grows[OF None, of env tp ac cache sp] None
    show ?thesis by auto
  next
    case (Some t)
    then show ?thesis by (simp add: get_confirmed_planets_table_hit)
  qed
qed

theorem cache_hit_conditions_witness:
  "effects (snd (query_planet kepler_env ''Kepler-7 b'' True True (Some ''kepler7b.csv'') False
                   planet_cached)) \<noteq> effects planet_cached \<and>
   effects (snd (query_star kepler_env ''Kepler-7'' False True (Some ''kepler7b.csv'') False
                   planet_cached)) \<noteq> effects planet_cached \<and>
   effects (snd (get_confirmed_planets_table kepler_env None False False True planet_cached))
     = effects planet_cached"
proof -
  have p: "\<not> py_is (self_cache_planet planet_cached)
               \<lparr>oid = heap_next planet_cached, chars = format_quoted (strip ''Kepler-7 b'')\<rparr>"
    by (simp add: run_defs)
  have t: "self_table planet_cached \<noteq> None"
    by (simp add: run_defs)
  from p cache_hit_conditions [of kepler_env "''Kepler-7 b''" True True "Some ''kepler7b.csv''" False
          planet_cached]
  have 1: "effects (snd (query_planet kepler_env ''Kepler-7 b'' True True (Some ''kepler7b.csv'')
                            False planet_cached)) \<noteq> effects planet_cached"
    by blast
  from cache_hit_conditions [of kepler_env "''Kepler-7''" False True "Some ''kepler7b.csv''" False
          planet_cached]
  have 2: "effects (snd (query_star kepler_env ''Kepler-7'' False True (Some ''kepler7b.csv'')
                            False planet_cached)) \<noteq> effects planet_cached"
    by blast
  from t cache_hit_conditions [of kepler_env "''Kepler-7''" False True None False planet_cached]
  have 3: "effects (snd (get_confirmed_planets_table kepler_env None False False True
                            planet_cached)) = effects planet_cached"
    by blast
  from 1 2 3 show ?thesis by blast
qed

text \<open>
  C3 as it was stated fails for \<^verbatim>\<open>get_confirmed_planets_table\<close>: with \<^verbatim>\<open>cache=False\<close> and
  a table stored by a planet query, it returns that table and the log stays as it was.
\<close>

theorem get_confirmed_planets_table_cache_false_counterexample:
  "self_table planet_cached = Some (kepler7b_table 1) \<and>
   fst (get_confirmed_planets_table kepler_env None False False True planet_cached)
     = Inr (kepler7b_table 1) \<and>
   effects (snd (get_confirmed_planets_table kepler_env None False False True planet_cached))
     = effects planet_cached"
  by (simp add: run_defs)

text \<open>
  C4. Whenever a table is stored on the client, whichever query stored it,
  \<^verbatim>\<open>get_confirmed_planets_table\<close> returns that table on its presence alone: it compares
  no key, looks at none of its arguments, and leaves the state as it was, so nothing is
  downloaded or read.
\<close>

theorem get_confirmed_planets_table_returns_stored:
  "self_table s = Some t \<Longrightarrow>
     get_confirmed_planets_table env table_path all_columns cache show_progress s = (Inr t, s)"
  by (simp add: get_confirmed_planets_table_def)

theorem get_confirmed_planets_table_returns_stored_witness:
  "self_table planet_cached = Some (kepler7b_table 1) \<and>
   get_confirmed_planets_table kepler_env None False True True planet_cached =
     (Inr (kepler7b_table 1), planet_cached)"
proof -
  have h: "self_table planet_cached = Some (kepler7b_table 1)"
    by (simp add: run_defs)
  show ?thesis
    using get_confirmed_planets_table_returns_stored [OF h, of kepler_env None False True True] h
    by simp
qed

text \<open>
  C5. For every planet name and every host name, from every well-formed state: a
  \<^verbatim>\<open>query_star\<close> call with \<^verbatim>\<open>cache=True\<close> right after a \<^verbatim>\<open>query_planet\<close> call does its
  own download and parse with the host filter. Its result is the outcome of that fetch,
  the log grows, and the table it returns is neither the table stored after the planet
  query nor the table the planet query returned.
\<close>

theorem query_star_after_query_planet:
  assumes "heap_ok s"
    and "query_planet env planet c1 sp1 tp1 ac1 s = (r1, s1)"
    and "query_star env star True sp tp ac s1 = (r2, s2)"
  shows "r2 = map_sum id (\<lambda>cols. \<lparr>tid = Suc (heap_next s1), columns = cols\<rparr>)
               (fst (fetch_table env
                  (EXOPLANETS_CSV_URL @ ''&where=pl_hostname='' @ quote (format_quoted (strip star)))
                  True sp tp ac (s1\<lparr>heap_next := Suc (heap_next s1)\<rparr>))) \<and>
         length (effects s1) < length (effects s2) \<and>
         (\<forall>t. self_table s1 = Some t \<longrightarrow> r2 \<noteq> Inr t) \<and>
         (\<forall>t. r1 = Inr t \<longrightarrow> r2 \<noteq> Inr t)"
proof -
  have ok1: "heap_ok s1"
    using assms(1,2) by (rule heap_ok_query_planet)
  note miss0 = heap_ok_miss_planet[OF assms(1), of "format_quoted (strip planet)" c1]
  note res1 = query_planet_result[OF miss0 assms(2)]
  note miss = heap_ok_miss_star[OF ok1, of "format_quoted (strip star)" True]
  note res = query_star_result[OF miss assms(3)]
  have grows: "length (effects s1) < length (effects s2)"
    using query_star_miss_grows[OF miss, of env sp tp ac] assms(3) by simp
  have new: "\<forall>t. self_table s1 = Some t \<longrightarrow> r2 \<noteq> Inr t"
    unfolding res(1) using stored_table_is_old[OF ok1] by blast
  with res1(2) have "\<forall>t. r1 = Inr t \<longrightarrow> r2 \<noteq> Inr t"
    by blast
  with res(1) grows new show ?thesis by blast
qed

theorem query_star_after_query_planet_witness:
  "heap_ok (init :: real client) \<and>
   query_planet kepler_env ''Kepler-7 b'' True True (Some ''kepler7b.csv'') False init
     = (Inr (kepler7b_table 1), planet_cached) \<and>
   fst (query_star kepler_env ''Kepler-7'' True True (Some ''kepler7b.csv'') False planet_cached)
     \<noteq> Inr (kepler7b_table 1) \<and>
   length (effects planet_cached)
     < length (effects (snd (query_star kepler_env ''Kepler-7'' True True (Some ''kepler7b.csv'')
                               False planet_cached)))"
proof -
  have h1: "heap_ok (init :: real client)"
    by (simp add: heap_ok_def init_def)
  have "fst (query_planet kepler_env ''Kepler-7 b'' True True (Some ''kepler7b.csv'') False init)
          = Inr (kepler7b_table 1)"
    by (simp add: run_defs)
  then have h2: "query_planet kepler_env ''Kepler-7 b'' True True (Some ''kepler7b.csv'') False init
                   = (Inr (kepler7b_table 1), planet_cached)"
    by (simp add: planet_cached_def prod_eq_iff)
  have h3: "query_star kepler_env ''Kepler-7'' True True (Some ''kepler7b.csv'') False planet_cached
      = (fst (query_star kepler_env ''Kepler-7'' True True (Some ''kepler7b.csv'') False planet_cached),
         snd (query_star kepler_env ''Kepler-7'' True True (Some ''kepler7b.csv'') False planet_cached))"
    by simp
  from query_star_after_query_planet [OF h1 h2 h3] h1 h2
  show ?thesis by blast
qed

subsection \<open>The query URL\<close>

text \<open>
  C6. For every name, when the method downloads (no local path given), the URL it passes
  to \<^verbatim>\<open>download_file\<close> is the base endpoint, then \<^verbatim>\<open>&where=pl_name=\<close> for
  \<^verbatim>\<open>query_planet\<close> and \<^verbatim>\<open>&where=pl_hostname=\<close> for \<^verbatim>\<open>query_star\<close>, then the quoted form of
  the stripped name between two apostrophes, and with \<^verbatim>\<open>all_columns\<close> the clause
  \<^verbatim>\<open>&select=*\<close> at the end. The URL without that clause contains no \<^verbatim>\<open>*\<close> at all. The
  stripped name is the name without a leading and a trailing run of white space, and it
  neither begins nor ends with white space. Every character of the quoted value is a
  letter, a digit, one of \<^verbatim>\<open>_.-~\<close>, \<^verbatim>\<open>/\<close> or \<^verbatim>\<open>%\<close>.
\<close>

theorem query_url:
  assumes "heap_ok s"
  shows "(\<exists>rest. effects (snd (query_planet env name cache sp None ac s)) =
            effects s @
            Download (EXOPLANETS_CSV_URL @ ''&where=pl_name='' @
                      quote (apostrophe # strip name @ [apostrophe]) @
                      (if ac then ''&select=*'' else [])) cache sp 120 # rest) \<and>
         (\<exists>rest. effects (snd (query_star env name cache sp None ac s)) =
            effects s @
            Download (EXOPLANETS_CSV_URL @ ''&where=pl_hostname='' @
                      quote (apostrophe # strip name @ [apostrophe]) @
                      (if ac then ''&select=*'' else [])) cache sp 120 # rest) \<and>
         CHR ''*'' \<notin> set (EXOPLANETS_CSV_URL @ ''&where=pl_name='' @
                             quote (apostrophe # strip name @ [apostrophe])) \<and>
         CHR ''*'' \<notin> set (EXOPLANETS_CSV_URL @ ''&where=pl_hostname='' @
                             quote (apostrophe # strip name @ [apostrophe])) \<and>
         (\<exists>pre post. name = pre @ strip name @ post \<and>
                     (\<forall>c \<in> set pre. is_space c) \<and> (\<forall>c \<in> set post. is_space c)) \<and>
         (strip name \<noteq> [] \<longrightarrow> \<not> is_space (hd (strip name)) \<and> \<not> is_space (last (strip name))) \<and>
         (\<forall>c \<in> set (quote (apostrophe # strip name @ [apostrophe])).
             always_safe c \<or> c = CHR ''/'' \<or> c = CHR ''%'')"
proof (intro conjI)
  define k where "k = format_quoted (strip name)"
  have k: "apostrophe # strip name @ [apostrophe] = k"
    by (simp add: k_def format_quoted_def)
  define up where "up = EXOPLANETS_CSV_URL @ ''&where=pl_name='' @ quote k"
  define us where "us = EXOPLANETS_CSV_URL @ ''&where=pl_hostname='' @ quote k"
  have qp: "query_planet env name cache sp None ac s =
     (case fetch_table env up cache sp None ac (s\<lparr>heap_next := Suc (heap_next s)\<rparr>) of
        (Inl e, s1) \<Rightarrow> (Inl e, s1)
      | (Inr cols, s1) \<Rightarrow>
          (Inr \<lparr>tid = heap_next s1, columns = cols\<rparr>,
           s1\<lparr>heap_next := Suc (heap_next s1),
              self_table := Some \<lparr>tid = heap_next s1, columns = cols\<rparr>,
              self_cache_planet := Some \<lparr>oid = heap_next s, chars = format_quoted (strip name)\<rparr>\<rparr>))"
    unfolding up_def k_def by (rule query_planet_miss[OF heap_ok_miss_planet[OF assms]])
  have qs: "query_star env name cache sp None ac s =
     (case fetch_table env us cache sp None ac (s\<lparr>heap_next := Suc (heap_next s)\<rparr>) of
        (Inl e, s1) \<Rightarrow> (Inl e, s1)
      | (Inr cols, s1) \<Rightarrow>
          (Inr \<lparr>tid = heap_next s1, columns = cols\<rparr>,
           s1\<lparr>heap_next := Suc (heap_next s1),
              self_table := Some \<lparr>tid = heap_next s1, columns = cols\<rparr>,
              self_cache_star := Some \<lparr>oid = heap_next s, chars = format_quoted (strip name)\<rparr>\<rparr>))"
    unfolding us_def k_def by (rule query_star_miss[OF heap_ok_miss_star[OF assms]])
  have effp: "effects (snd (query_planet env name cache sp None ac s)) =
              effects (snd (fetch_table env up cache sp None ac (s\<lparr>heap_next := Suc (heap_next s)\<rparr>)))"
    unfolding qp by (simp split: prod.splits sum.splits)
  have effs: "effects (snd (query_star env name cache sp None ac s)) =
              effects (snd (fetch_table env us cache sp None ac (s\<lparr>heap_next := Suc (heap_next s)\<rparr>)))"
    unfolding qs by (simp split: prod.splits sum.splits)
  from fetch_table_first_download[of env up cache sp ac "s\<lparr>heap_next := Suc (heap_next s)\<rparr>"]
  show "\<exists>rest. effects (snd (query_planet env name cache sp None ac s)) =
            effects s @
            Download (EXOPLANETS_CSV_URL @ ''&where=pl_name='' @
                      quote (apostrophe # strip name @ [apostrophe]) @
                      (if ac then ''&select=*'' else [])) cache sp 120 # rest"
    unfolding effp k by (simp add: up_def)
  from fetch_table_first_download[of env us cache sp ac "s\<lparr>heap_next := Suc (heap_next s)\<rparr>"]
  show "\<exists>rest. effects (snd (query_star env name cache sp None ac s)) =
            effects s @
            Download (EXOPLANETS_CSV_URL @ ''&where=pl_hostname='' @
                      quote (apostrophe # strip name @ [apostrophe]) @
                      (if ac then ''&select=*'' else [])) cache sp 120 # rest"
    unfolding effs k by (simp add: us_def)
  show "CHR ''*'' \<notin> set (EXOPLANETS_CSV_URL @ ''&where=pl_name='' @
                             quote (apostrophe # strip name @ [apostrophe]))"
    using base_url_no_star star_not_in_quote[of k] unfolding k by simp
  show "CHR ''*'' \<notin> set (EXOPLANETS_CSV_URL @ ''&where=pl_hostname='' @
                             quote (apostrophe # strip name @ [apostrophe]))"
    using base_url_no_star star_not_in_quote[of k] unfolding k by simp
  show "\<exists>pre post. name = pre @ strip name @ post \<and>
                     (\<forall>c \<in> set pre. is_space c) \<and> (\<forall>c \<in> set post. is_space c)"
    by (rule strip_decomposition)
  show "strip name \<noteq> [] \<longrightarrow> \<not> is_space (hd (strip name)) \<and> \<not> is_space (last (strip name))"
    using strip_ends[of name] by blast
  show "\<forall>c \<in> set (quote (apostrophe # strip name @ [apostrophe])).
             always_safe c \<or> c = CHR ''/'' \<or> c = CHR ''%''"
    using quote_chars by blast
qed

theorem query_url_witness:
  "heap_ok (init :: real client) \<and>
   (\<exists>rest. effects (snd (query_planet kepler_env ''  Kepler-7 b '' True True None True init)) =
       Download ''http://exoplanetarchive.ipac.caltech.edu/cgi-bin/nstedAPI/nph-nstedAPI?table=exoplanets&where=pl_name=%27Kepler-7%20b%27&select=*''
         True True 120 # rest)"
proof -
  have h: "heap_ok (init :: real client)"
    by (simp add: heap_ok_def init_def)
  have u: "EXOPLANETS_CSV_URL @ ''&where=pl_name='' @
             quote (apostrophe # strip ''  Kepler-7 b '' @ [apostrophe]) @
             (if True then ''&select=*'' else []) =
           ''http://exoplanetarchive.ipac.caltech.edu/cgi-bin/nstedAPI/nph-nstedAPI?table=exoplanets&where=pl_name=%27Kepler-7%20b%27&select=*''"
    by (simp add: run_defs)
  have e: "effects (init :: real client) = []"
    by (simp add: init_def)
  from query_url [OF h, where env = kepler_env and name = "''  Kepler-7 b ''" and cache = True
                    and sp = True and ac = True]
  have "\<exists>rest. effects (snd (query_planet kepler_env ''  Kepler-7 b '' True True None True init)) =
            effects (init :: real client) @
            Download (EXOPLANETS_CSV_URL @ ''&where=pl_name='' @
                      quote (apostrophe # strip ''  Kepler-7 b '' @ [apostrophe]) @
                      (if True then ''&select=*'' else [])) True True 120 # rest"
    by blast
  then have "\<exists>rest. effects (snd (query_planet kepler_env ''  Kepler-7 b '' True True None True init)) =
       Download ''http://exoplanetarchive.ipac.caltech.edu/cgi-bin/nstedAPI/nph-nstedAPI?table=exoplanets&where=pl_name=%27Kepler-7%20b%27&select=*''
         True True 120 # rest"
    unfolding u e by simp
  with h show ?thesis by blast
qed

subsection \<open>Annotation of the parsed table\<close>



text \<open>
  C8. When \<^verbatim>\<open>query_planet\<close> returns a table, that table comes from a file the call has
  read, the parsed file has the columns \<^verbatim>\<open>ra\<close> and \<^verbatim>\<open>dec\<close>, and the column
  \<^verbatim>\<open>sky_coord\<close> of the returned table is the sky coordinate made of the \<^verbatim>\<open>ra\<close> values
  in degrees and the \<^verbatim>\<open>dec\<close> values in degrees. For the row with \<^verbatim>\<open>ra = 290\<close> and
  \<^verbatim>\<open>dec = 44\<close> of the example archive this is 290 degrees and 44 degrees.
\<close>

theorem query_planet_sky_coord:
  assumes "heap_ok s"
    and "query_planet env name cache sp tp ac s = (Inr t, s')"
  shows "\<exists>path raw ras decs u.
           Read path \<in> set (drop (length (effects s)) (effects s')) \<and>
           ascii_read env path = Some raw \<and>
           map_of raw ''ra'' = Some ras \<and> map_of raw ''dec'' = Some decs \<and>
           map_of (columns t) ''sky_coord''
             = Some (Column (SkyCoord (Quantity ras deg) (Quantity decs deg)) u)"
proof -
  let ?s0 = "s\<lparr>heap_next := Suc (heap_next s)\<rparr>"
  from query_planet_Inr[OF assms] obtain url s1 where
    f: "fetch_table env url cache sp tp ac ?s0 = (Inr (columns t), s1)"
    and e: "effects s' = effects s1"
    by blast
  from fetch_table_annotated[OF f] obtain path raw ras decs u where
    rd: "Read path \<in> set (drop (length (effects ?s0)) (effects s1))"
    and raw: "ascii_read env path = Some raw"
    and ra: "map_of raw ''ra'' = Some ras" and de: "map_of raw ''dec'' = Some decs"
    and sky: "map_of (columns t) ''sky_coord''
                = Some (Column (SkyCoord (Quantity ras deg) (Quantity decs deg)) u)"
    by (elim exE conjE) (rule that; assumption)
  from rd have "Read path \<in> set (drop (length (effects s)) (effects s'))"
    by (simp add: e)
  with raw ra de sky show ?thesis by blast
qed

theorem query_planet_sky_coord_witness:
  "heap_ok (init :: real client) \<and>
   query_planet kepler_env ''Kepler-7 b'' True True (Some ''kepler7b.csv'') False init
     = (Inr (kepler7b_table 1), planet_cached) \<and>
   (\<exists>u. map_of (columns (kepler7b_table 1)) ''sky_coord''
          = Some (Column (SkyCoord (Quantity [290] deg) (Quantity [44] deg)) u))"
proof -
  have h1: "heap_ok (init :: real client)"
    by (simp add: heap_ok_def init_def)
  have "fst (query_planet kepler_env ''Kepler-7 b'' True True (Some ''kepler7b.csv'') False init)
          = Inr (kepler7b_table 1)"
    by (simp add: run_defs)
  then have h2: "query_planet kepler_env ''Kepler-7 b'' True True (Some ''kepler7b.csv'') False init
                   = (Inr (kepler7b_table 1), planet_cached)"
    by (simp add: planet_cached_def prod_eq_iff)
  have eff: "drop (length (effects (init :: real client))) (effects planet_cached)
               = [Read ''kepler7b.csv'', LoadUnits]"
    by (simp add: run_defs)
  from query_planet_sky_coord [OF h1 h2] obtain path raw ras decs u where
    rd: "Read path \<in> set [Read ''kepler7b.csv'', LoadUnits]"
    and raw: "ascii_read kepler_env path = Some raw"
    and ra: "map_of raw ''ra'' = Some ras" and de: "map_of raw ''dec'' = Some decs"
    and sky: "map_of (columns (kepler7b_table 1)) ''sky_coord''
             = Some (Column (SkyCoord (Quantity ras deg) (Quantity decs deg)) u)"
    unfolding eff by (elim exE conjE) (rule that; assumption)
  from rd have path: "path = ''kepler7b.csv''" by simp
  from raw have raw': "raw = [(''ra'', [290]), (''dec'', [44]), (''pl_orbper'', [5]), (''pl_radj'', [2])]"
    unfolding path by (simp add: kepler_env_def)
  from ra de have "ras = [290]" "decs = [44]"
    by (simp_all add: raw')
  with sky have "\<exists>u. map_of (columns (kepler7b_table 1)) ''sky_coord''
          = Some (Column (SkyCoord (Quantity [290] deg) (Quantity [44] deg)) u)"
    by blast
  with h1 h2 show ?thesis by blast
qed

subsection \<open>Errors\<close>

text \<open>
  C9. From a well-formed state: when the download fails, \<^verbatim>\<open>query_planet\<close> raises the
  fetch error after exactly one download attempt, made with the timeout 120, and changes
  nothing else of the client but the identity counter; when the file it obtained cannot
  be parsed, it raises the parse error and leaves the stored table and key as they were.
  In every case a call makes at most one download attempt, and every attempt has the
  timeout 120.
\<close>

theorem query_planet_errors:
  assumes "heap_ok s"
  shows "(download_file env
            (EXOPLANETS_CSV_URL @ ''&where=pl_name='' @ quote (format_quoted (strip name)) @
             (if ac then ''&select=*'' else [])) cache sp 120 = None \<longrightarrow>
          query_planet env name cache sp None ac s =
            (Inl FetchError,
             s\<lparr>heap_next := Suc (heap_next s),
               effects := effects s @
                 [Download (EXOPLANETS_CSV_URL @ ''&where=pl_name='' @
                            quote (format_quoted (strip name)) @
                            (if ac then ''&select=*'' else [])) cache sp 120]\<rparr>)) \<and>
         ((case tp of
             Some p \<Rightarrow> Some p
           | None \<Rightarrow> download_file env
                      (EXOPLANETS_CSV_URL @ ''&where=pl_name='' @ quote (format_quoted (strip name)) @
                       (if ac then ''&select=*'' else [])) cache sp 120) = Some path \<and>
          ascii_read env path = None \<longrightarrow>
          fst (query_planet env name cache sp tp ac s) = Inl ParseError \<and>
          self_table (snd (query_planet env name cache sp tp ac s)) = self_table s \<and>
          self_cache_planet (snd (query_planet env name cache sp tp ac s)) = self_cache_planet s) \<and>
         length (filter is_download
                   (drop (length (effects s))
                      (effects (snd (query_planet env name cache sp tp ac s))))) \<le> 1 \<and>
         (\<forall>u c p t. Download u c p t
                       \<in> set (drop (length (effects s))
                                (effects (snd (query_planet env name cache sp tp ac s))))
                     \<longrightarrow> t = 120)"
proof -
  define up where "up = EXOPLANETS_CSV_URL @ ''&where=pl_name='' @ quote (format_quoted (strip name))"
  have up: "EXOPLANETS_CSV_URL @ ''&where=pl_name='' @ quote (format_quoted (strip name)) @ x = up @ x"
    for x by (simp add: up_def)
  let ?s0 = "s\<lparr>heap_next := Suc (heap_next s)\<rparr>"
  have qp: "query_planet env name cache sp tp ac s =
     (case fetch_table env up cache sp tp ac ?s0 of
        (Inl e, s1) \<Rightarrow> (Inl e, s1)
      | (Inr cols, s1) \<Rightarrow>
          (Inr \<lparr>tid = heap_next s1, columns = cols\<rparr>,
           s1\<lparr>heap_next := Suc (heap_next s1),
              self_table := Some \<lparr>tid = heap_next s1, columns = cols\<rparr>,
              self_cache_planet := Some \<lparr>oid = heap_next s, chars = format_quoted (strip name)\<rparr>\<rparr>))"
    for tp
    unfolding up_def by (rule query_planet_miss[OF heap_ok_miss_planet[OF assms]])
  have a: "query_planet env name cache sp None ac s =
            (Inl FetchError,
             s\<lparr>heap_next := Suc (heap_next s),
               effects := effects s @
                 [Download (up @ (if ac then ''&select=*'' else [])) cache sp 120]\<rparr>)"
    if "download_file env (up @ (if ac then ''&select=*'' else [])) cache sp 120 = None"
    unfolding qp fetch_table_download_fails[OF that] by simp
  have b: "fst (query_planet env name cache sp tp ac s) = Inl ParseError \<and>
          self_table (snd (query_planet env name cache sp tp ac s)) = self_table s \<and>
          self_cache_planet (snd (query_planet env name cache sp tp ac s)) = self_cache_planet s"
    if p: "(case tp of Some p \<Rightarrow> Some p
             | None \<Rightarrow> download_file env (up @ (if ac then ''&select=*'' else [])) cache sp 120)
            = Some path"
      and r: "ascii_read env path = None"
  proof -
    obtain r0 s1 where f: "fetch_table env up cache sp tp ac ?s0 = (r0, s1)"
      by (cases "fetch_table env up cache sp tp ac ?s0") auto
    from fetch_table_parse_fails[OF p r, of ?s0] f have r0: "r0 = Inl ParseError" by simp
    from fetch_table_frame[OF f] show ?thesis
      unfolding qp f r0 by simp
  qed
  obtain r0 s1 where f: "fetch_table env up cache sp tp ac ?s0 = (r0, s1)"
    by (cases "fetch_table env up cache sp tp ac ?s0") auto
  have eff: "effects (snd (query_planet env name cache sp tp ac s)) = effects s1"
    unfolding qp f by (cases r0) simp_all
  have c: "length (filter is_download
                   (drop (length (effects s))
                      (effects (snd (query_planet env name cache sp tp ac s))))) \<le> 1"
    using fetch_table_downloads(1)[OF f] unfolding eff by simp
  have d: "\<forall>u c p t. Download u c p t
                       \<in> set (drop (length (effects s))
                                (effects (snd (query_planet env name cache sp tp ac s))))
                     \<longrightarrow> t = 120"
    using fetch_table_downloads(2)[OF f] unfolding eff by simp
  from a b c d show ?thesis
    unfolding up by blast
qed

theorem query_planet_errors_witness:
  "heap_ok (init :: real client) \<and>
   fst (query_planet kepler_env ''Nowhere'' True True None False init) = Inl FetchError \<and>
   effects (snd (query_planet kepler_env ''Nowhere'' True True None False init)) =
     [Download ''http://exoplanetarchive.ipac.caltech.edu/cgi-bin/nstedAPI/nph-nstedAPI?table=exoplanets&where=pl_name=%27Nowhere%27''
        True True 120] \<and>
   fst (query_planet kepler_env ''Kepler-7 b'' True True (Some ''broken.csv'') False init)
     = Inl ParseError"
proof -
  have h: "heap_ok (init :: real client)"
    by (simp add: heap_ok_def init_def)
  have u: "EXOPLANETS_CSV_URL @ ''&where=pl_name='' @ quote (format_quoted (strip ''Nowhere'')) @
             (if False then ''&select=*'' else []) =
           ''http://exoplanetarchive.ipac.caltech.edu/cgi-bin/nstedAPI/nph-nstedAPI?table=exoplanets&where=pl_name=%27Nowhere%27''"
    by (simp add: run_defs)
  have d: "download_file kepler_env
             ''http://exoplanetarchive.ipac.caltech.edu/cgi-bin/nstedAPI/nph-nstedAPI?table=exoplanets&where=pl_name=%27Nowhere%27''
             True True 120 = None"
    by (simp add: kepler_env_def EXOPLANETS_CSV_URL_def)
  have e: "effects (init :: real client) = []"
    by (simp add: init_def)
  from query_planet_errors [OF h, where env = kepler_env and name = "''Nowhere''" and cache = True
          and sp = True and ac = False and tp = None and path = "''none''", unfolded u,
          THEN conjunct1, rule_format, OF d]
  have fe: "query_planet kepler_env ''Nowhere'' True True None False init =
            (Inl FetchError,
             init\<lparr>heap_next := Suc (heap_next (init :: real client)),
               effects := effects (init :: real client) @
                 [Download ''http://exoplanetarchive.ipac.caltech.edu/cgi-bin/nstedAPI/nph-nstedAPI?table=exoplanets&where=pl_name=%27Nowhere%27''
                    True True 120]\<rparr>)" .
  have p: "ascii_read kepler_env ''broken.csv'' = None"
    by (simp add: kepler_env_def)
  have c: "(case Some ''broken.csv'' of Some p \<Rightarrow> Some p
            | None \<Rightarrow> download_file kepler_env
                (EXOPLANETS_CSV_URL @ ''&where=pl_name='' @ quote (format_quoted (strip ''Kepler-7 b'')) @
                 (if False then ''&select=*'' else [])) True True 120) = Some ''broken.csv''"
    by (simp only: option.case)
  from query_planet_errors [OF h, where env = kepler_env and name = "''Kepler-7 b''" and cache = True
          and sp = True and ac = False and tp = "Some ''broken.csv''" and path = "''broken.csv''",
          THEN conjunct2, THEN conjunct1, rule_format, OF conjI [OF c p], THEN conjunct1]
  have pe: "fst (query_planet kepler_env ''Kepler-7 b'' True True (Some ''broken.csv'') False init)
              = Inl ParseError" .
  from fe have "fst (query_planet kepler_env ''Nowhere'' True True None False init) = Inl FetchError"
    and "effects (snd (query_planet kepler_env ''Nowhere'' True True None False init)) =
     [Download ''http://exoplanetarchive.ipac.caltech.edu/cgi-bin/nstedAPI/nph-nstedAPI?table=exoplanets&where=pl_name=%27Nowhere%27''
        True True 120]"
    by (simp_all add: e)
  with h pe show ?thesis by blast
qed

subsection \<open>What a fetch leaves alone\<close>



end
